theory Spec2Isabelle
  imports Complex_Main "HOL-Library.Sublist"
begin

section \<open>Data model (types.ts)\<close>

text \<open>
  The phases of the application, the enum \<^verbatim>\<open>AppState\<close>. The source holds two
  versions of the declaration; \<^verbatim>\<open>App.tsx\<close> uses \<^verbatim>\<open>AppState.STORYBOARD\<close>, so the
  version with seven members is the one in force.
\<close>

datatype AppState =
  KEY_SELECTION | UPLOAD | CONFIGURE | ANALYZING | STORYBOARD | GENERATING | RESULT

text \<open>The string-literal union types \<^verbatim>\<open>Genre\<close>, \<^verbatim>\<open>Mood\<close>, \<^verbatim>\<open>Archetype\<close>, \<^verbatim>\<open>CameraMovement\<close>.\<close>

datatype Genre = SciFi | Comedy | Drama | Horror | Action | Romance

datatype Mood = Uplifting | Suspenseful | Heartwarming | Dark | Epic | Noir

datatype Archetype =
  ReluctantHero | WiseMentor | CunningVillain | ComicRelief | FemmeFatale | TheOutcast

datatype CameraMovement =
  Static | CinematicPushIn | SlowPanLeft | SlowPanRight | HandheldShake | DroneFlyover | ZoomOut

text \<open>
  A JavaScript number as far as the code looks at it: the only test the code applies to
  a number is \<^verbatim>\<open>isNaN\<close>. Finite doubles are embedded in the reals.
\<close>

datatype js_number = NaN | Infinity | NegInfinity | Finite real

fun isNaN :: "js_number \<Rightarrow> bool" where
  "isNaN NaN = True"
| "isNaN _ = False"

text \<open>
  \<^verbatim>\<open>interface Subtitle { startTime: number; endTime: number; text: string }\<close>.
  The interface declares the three fields as required, but the type is not checked at
  run time: the object built by \<^verbatim>\<open>{ ...newSubtitles[index], [field]: v }\<close> at an index
  that holds no element has only the field written. A field that is absent
  (\<^verbatim>\<open>undefined\<close>) is \<open>None\<close>. The field \<^verbatim>\<open>text\<close> is named \<open>sub_text\<close>.
\<close>

record Subtitle =
  startTime :: "js_number option"
  endTime :: "js_number option"
  sub_text :: "string option"

text \<open>
  \<^verbatim>\<open>interface GenerationConfig\<close>. \<^verbatim>\<open>archetypes\<close> is an array: order and
  duplicates are kept.
\<close>

record GenerationConfig =
  genre :: Genre
  mood :: Mood
  archetypes :: "Archetype list"
  camera :: CameraMovement
  includeSubtitles :: bool

text \<open>
  \<^verbatim>\<open>interface MovieScene\<close>. Its \<^verbatim>\<open>genre\<close> and \<^verbatim>\<open>mood\<close> are free strings, named
  \<open>scene_genre\<close> and \<open>scene_mood\<close> here to keep them apart from the fields of the
  configuration. \<^verbatim>\<open>subtitles\<close> and \<^verbatim>\<open>storyboardImage\<close> are optional. A JavaScript
  array may have holes (an assignment beyond its length leaves them), so the elements
  of \<^verbatim>\<open>subtitles\<close> are options, \<open>None\<close> for a hole.
\<close>

record MovieScene =
  title :: string
  description :: string
  visualPrompt :: string
  scene_genre :: string
  scene_mood :: string
  characters :: "string list"
  subtitles :: "Subtitle option list option"
  storyboardImage :: "string option"

text \<open>
  A value thrown by a rejected call. The handlers read only \<^verbatim>\<open>apiErr.message\<close>,
  which may be missing.
\<close>

datatype js_error = JsError (message: "string option")

section \<open>The component state (App.tsx, the useState cells of App)\<close>

record AppModel =
  state :: AppState
  error :: "string option"
  loadingMsg :: string
  sceneInfo :: "MovieScene option"
  videoUrl :: "string option"
  videoLoaded :: bool
  currentTime :: js_number
  showSubtitles :: bool
  pdfBase64 :: "string option"
  config :: GenerationConfig

text \<open>The initial values given to \<^verbatim>\<open>useState\<close>.\<close>

definition initialApp :: AppModel where
  "initialApp =
     \<lparr> state = KEY_SELECTION, error = None, loadingMsg = [], sceneInfo = None,
       videoUrl = None, videoLoaded = False, currentTime = Finite 0, showSubtitles = True,
       pdfBase64 = None,
       config = \<lparr> genre = SciFi, mood = Epic, archetypes = [], camera = CinematicPushIn,
                  includeSubtitles = True \<rparr> \<rparr>"

text \<open>
  JavaScript truthiness of a value of type \<^verbatim>\<open>string | null | undefined\<close>:
  \<^verbatim>\<open>null\<close>, \<^verbatim>\<open>undefined\<close> and the empty string are falsy.
\<close>

fun truthy :: "string option \<Rightarrow> bool" where
  "truthy None = False"
| "truthy (Some s) = (s \<noteq> [])"

text \<open>\<^verbatim>\<open>a || b\<close> on such a value and a default string.\<close>

fun or_else :: "string option \<Rightarrow> string \<Rightarrow> string" where
  "or_else None d = d"
| "or_else (Some s) d = (if s = [] then d else s)"

text \<open>\<^verbatim>\<open>s.includes(p)\<close> on strings: \<open>p\<close> occurs in \<open>s\<close> as a contiguous run.\<close>

definition str_includes :: "string \<Rightarrow> string \<Rightarrow> bool" where
  "str_includes s p = sublist p s"

subsection \<open>toggleArchetype and reset\<close>

text \<open>
  \<^verbatim>\<open>
  const toggleArchetype = (arch) => {
    setConfig(prev => ({ ...prev,
      archetypes: prev.archetypes.includes(arch)
        ? prev.archetypes.filter(a => a !== arch)
        : [...prev.archetypes, arch] }));
  };
  \<close>
\<close>

definition toggleArchetype :: "Archetype \<Rightarrow> AppModel \<Rightarrow> AppModel" where
  "toggleArchetype arch s =
     s\<lparr>config := (config s)\<lparr>archetypes :=
         (if arch \<in> set (archetypes (config s))
          then filter (\<lambda>a. a \<noteq> arch) (archetypes (config s))
          else archetypes (config s) @ [arch])\<rparr>\<rparr>"

text \<open>
  \<^verbatim>\<open>
  const reset = () => {
    setState(AppState.UPLOAD); setVideoUrl(null); setSceneInfo(null);
    setPdfBase64(null); setVideoLoaded(false); setError(null);
  };
  \<close>
\<close>

definition reset :: "AppModel \<Rightarrow> AppModel" where
  "reset s =
     s\<lparr>state := UPLOAD, videoUrl := None, sceneInfo := None, pdfBase64 := None,
       videoLoaded := False, error := None\<rparr>"

subsection \<open>handleFileUpload\<close>

text \<open>
  What the handler reads of the selected \<^verbatim>\<open>File\<close>: its MIME type.
\<close>

record File =
  file_type :: string

text \<open>
  The two ways a \<^verbatim>\<open>FileReader\<close> settles: \<^verbatim>\<open>onload\<close>, with \<^verbatim>\<open>reader.result\<close>
  (a string, or \<^verbatim>\<open>null\<close>), or \<^verbatim>\<open>onerror\<close>.
\<close>

datatype ReadOutcome = OnLoad "string option" | OnError

text \<open>
  \<^verbatim>\<open>result.split(',')[1]\<close>: the text between the first and the second comma,
  \<^verbatim>\<open>undefined\<close> when the string has no comma.
\<close>

definition split_comma_1 :: "string \<Rightarrow> string option" where
  "split_comma_1 result =
     (case dropWhile (\<lambda>c. c \<noteq> CHR '','') result of
        [] \<Rightarrow> None
      | _ # rest \<Rightarrow> Some (takeWhile (\<lambda>c. c \<noteq> CHR '','') rest))"

text \<open>
  \<^verbatim>\<open>
  const handleFileUpload = (event) => {
    const file = event.target.files?.[0];
    if (!file) return;
    if (file.type !== 'application/pdf') {
      setError("Please upload a valid PDF script."); ...; return;
    }
    setLoadingMsg("Reading Script...");
    reader.onload = () => {
      try {
        const result = reader.result as string;
        const base64 = result.split(',')[1];
        setPdfBase64(base64); setState(AppState.CONFIGURE); setError(null);
      } catch (err) { setError("Error processing script. Please try another file."); }
      finally { setLoadingMsg(""); ... }
    };
    reader.onerror = () => {
      setError("Failed to read the file. Please try again."); setLoadingMsg(""); ...
    };
    reader.readAsDataURL(file);
  };
  \<close>
  The first argument is \<^verbatim>\<open>event.target.files?.[0]\<close>, the second the way the reader
  settles. In the \<^verbatim>\<open>try\<close> block only \<^verbatim>\<open>result.split\<close> can throw, when
  \<^verbatim>\<open>reader.result\<close> is \<^verbatim>\<open>null\<close>. Clearing the value of the file input is an
  effect on the page, outside the component state.
\<close>

definition handleFileUpload :: "File option \<Rightarrow> ReadOutcome \<Rightarrow> AppModel \<Rightarrow> AppModel" where
  "handleFileUpload file rd s =
     (case file of
        None \<Rightarrow> s
      | Some f \<Rightarrow>
          if file_type f \<noteq> ''application/pdf''
          then s\<lparr>error := Some ''Please upload a valid PDF script.''\<rparr>
          else
            (let s1 = s\<lparr>loadingMsg := ''Reading Script...''\<rparr> in
             case rd of
               OnLoad None \<Rightarrow>
                 s1\<lparr>error := Some ''Error processing script. Please try another file.'',
                    loadingMsg := []\<rparr>
             | OnLoad (Some result) \<Rightarrow>
                 s1\<lparr>pdfBase64 := split_comma_1 result, state := CONFIGURE, error := None,
                    loadingMsg := []\<rparr>
             | OnError \<Rightarrow>
                 s1\<lparr>error := Some ''Failed to read the file. Please try again.'',
                    loadingMsg := []\<rparr>))"

subsection \<open>startAnalysis\<close>

text \<open>
  The two services \<^verbatim>\<open>analyzeScript\<close> and \<^verbatim>\<open>generateStoryboard\<close> answer from the
  network; the handler sees each call resolve with a value or reject with an error.
  They are parameters \<open>an\<close> and \<open>sb\<close> of the model, returning \<open>Inr\<close> the value or
  \<open>Inl\<close> the error. The handler is modelled as running to its end with no other event
  of the page in between.

  \<^verbatim>\<open>
  const startAnalysis = async () => {
    if (!pdfBase64) return;
    setLoadingMsg("Analyzing Narrative Beats...");
    setState(AppState.ANALYZING);
    setError(null);
    try {
      const analysis = await analyzeScript(pdfBase64, config);
      setSceneInfo(analysis);
      setLoadingMsg("Sketching Storyboard...");
      const storyboard = await generateStoryboard(analysis.visualPrompt);
      setSceneInfo(prev => prev ? ({ ...prev, storyboardImage: storyboard }) : analysis);
      setState(AppState.STORYBOARD);
    } catch (apiErr) {
      if (apiErr.message?.includes("Requested entity was not found")) {
        setState(AppState.KEY_SELECTION);
        setError("Your API key session expired. Please re-select your project.");
      } else {
        setError(apiErr.message || "A production error occurred. Please try again.");
        setState(AppState.CONFIGURE);
      }
    }
  };
  \<close>
\<close>

text \<open>The three updates made before the first \<^verbatim>\<open>await\<close>.\<close>

definition startAnalysis_begin :: "AppModel \<Rightarrow> AppModel" where
  "startAnalysis_begin s =
     s\<lparr>loadingMsg := ''Analyzing Narrative Beats...'', state := ANALYZING, error := None\<rparr>"

text \<open>The \<^verbatim>\<open>catch\<close> block.\<close>

definition startAnalysis_catch :: "js_error \<Rightarrow> AppModel \<Rightarrow> AppModel" where
  "startAnalysis_catch apiErr s =
     (if (case message apiErr of
            None \<Rightarrow> False
          | Some m \<Rightarrow> str_includes m ''Requested entity was not found'')
      then s\<lparr>state := KEY_SELECTION,
             error := Some ''Your API key session expired. Please re-select your project.''\<rparr>
      else s\<lparr>error := Some (or_else (message apiErr)
                                  ''A production error occurred. Please try again.''),
             state := CONFIGURE\<rparr>)"

text \<open>
  The \<^verbatim>\<open>try\<close> block; \<open>p\<close> and \<open>cfg\<close> are the \<^verbatim>\<open>pdfBase64\<close> and \<^verbatim>\<open>config\<close> of the
  render in which the handler was created.
\<close>

definition startAnalysis_try ::
  "(string \<Rightarrow> GenerationConfig \<Rightarrow> js_error + MovieScene) \<Rightarrow> (string \<Rightarrow> js_error + string) \<Rightarrow>
   string \<Rightarrow> GenerationConfig \<Rightarrow> AppModel \<Rightarrow> AppModel" where
  "startAnalysis_try an sb p cfg s =
     (case an p cfg of
        Inl apiErr \<Rightarrow> startAnalysis_catch apiErr s
      | Inr analysis \<Rightarrow>
          (let s1 = s\<lparr>sceneInfo := Some analysis\<rparr>;
               s2 = s1\<lparr>loadingMsg := ''Sketching Storyboard...''\<rparr>
           in case sb (visualPrompt analysis) of
                Inl apiErr \<Rightarrow> startAnalysis_catch apiErr s2
              | Inr storyboard \<Rightarrow>
                  s2\<lparr>sceneInfo :=
                        (case sceneInfo s2 of
                           Some prev \<Rightarrow> Some (prev\<lparr>storyboardImage := Some storyboard\<rparr>)
                         | None \<Rightarrow> Some analysis),
                     state := STORYBOARD\<rparr>))"

text \<open>The state in which the handler is suspended at its first \<^verbatim>\<open>await\<close>, or has returned.\<close>

definition startAnalysis_sync :: "AppModel \<Rightarrow> AppModel" where
  "startAnalysis_sync s = (if \<not> truthy (pdfBase64 s) then s else startAnalysis_begin s)"

text \<open>The state when the handler has run to its end.\<close>

definition startAnalysis ::
  "(string \<Rightarrow> GenerationConfig \<Rightarrow> js_error + MovieScene) \<Rightarrow> (string \<Rightarrow> js_error + string) \<Rightarrow>
   AppModel \<Rightarrow> AppModel" where
  "startAnalysis an sb s =
     (case pdfBase64 s of
        None \<Rightarrow> s
      | Some p \<Rightarrow>
          if \<not> truthy (Some p) then s
          else startAnalysis_try an sb p (config s) (startAnalysis_begin s))"

text \<open>
  The only caller of \<^verbatim>\<open>startAnalysis\<close> is the button INITIALIZE STORYBOARD, which is
  part of the page in phase CONFIGURE only:
  \<^verbatim>\<open>
  {state === AppState.CONFIGURE && ( ...
     <button onClick={startAnalysis} disabled={config.archetypes.length === 0} ...>
  \<close>
  A disabled button dispatches no click event.
\<close>

definition initializeStoryboard_disabled :: "AppModel \<Rightarrow> bool" where
  "initializeStoryboard_disabled s = (length (archetypes (config s)) = 0)"

definition click_initializeStoryboard_sync :: "AppModel \<Rightarrow> AppModel" where
  "click_initializeStoryboard_sync s =
     (if state s = CONFIGURE \<and> \<not> initializeStoryboard_disabled s
      then startAnalysis_sync s else s)"

definition click_initializeStoryboard ::
  "(string \<Rightarrow> GenerationConfig \<Rightarrow> js_error + MovieScene) \<Rightarrow> (string \<Rightarrow> js_error + string) \<Rightarrow>
   AppModel \<Rightarrow> AppModel" where
  "click_initializeStoryboard an sb s =
     (if state s = CONFIGURE \<and> \<not> initializeStoryboard_disabled s
      then startAnalysis an sb s else s)"

subsection \<open>startVideoGeneration\<close>

text \<open>
  \<^verbatim>\<open>
  const startVideoGeneration = async () => {
    if (!sceneInfo) return;
    setLoadingMsg("Rendering Cinematic Vision...");
    setState(AppState.GENERATING);
    setVideoLoaded(false);
    try {
      const movieUrl = await generateVideo(sceneInfo.visualPrompt, (msg) => setLoadingMsg(msg));
      setVideoUrl(movieUrl);
      setState(AppState.RESULT);
    } catch (apiErr) {
      setError(apiErr.message || "Video generation failed.");
      setState(AppState.STORYBOARD);
    }
  };
  \<close>
  The parameter \<open>gv\<close> is \<^verbatim>\<open>generateVideo\<close> applied to a prompt: \<open>None\<close> when the call
  never settles, otherwise the messages passed to \<^verbatim>\<open>onProgress\<close>, in order, and the
  value it resolves with or the error it rejects with. The result is \<open>None\<close> when the
  handler never reaches its end.
\<close>

definition startVideoGeneration ::
  "(string \<Rightarrow> (string list \<times> (js_error + string)) option) \<Rightarrow> AppModel \<Rightarrow> AppModel option" where
  "startVideoGeneration gv s =
     (case sceneInfo s of
        None \<Rightarrow> Some s
      | Some scene \<Rightarrow>
          (let s1 = s\<lparr>loadingMsg := ''Rendering Cinematic Vision...'', state := GENERATING,
                      videoLoaded := False\<rparr>
           in case gv (visualPrompt scene) of
                None \<Rightarrow> None
              | Some (msgs, res) \<Rightarrow>
                  (let s2 = foldl (\<lambda>st msg. st\<lparr>loadingMsg := msg\<rparr>) s1 msgs
                   in case res of
                        Inr movieUrl \<Rightarrow> Some (s2\<lparr>videoUrl := Some movieUrl, state := RESULT\<rparr>)
                      | Inl apiErr \<Rightarrow>
                          Some (s2\<lparr>error := Some (or_else (message apiErr)
                                                        ''Video generation failed.''),
                                   state := STORYBOARD\<rparr>))))"

subsection \<open>Subtitle edits\<close>

text \<open>
  Reading and writing a JavaScript array by index. Reading beyond the length or at a
  hole gives \<^verbatim>\<open>undefined\<close>; writing beyond the length extends the array, leaving
  holes. The index is a natural number, as the indices of \<^verbatim>\<open>subtitles.map\<close> are.
\<close>

definition js_get :: "'a option list \<Rightarrow> nat \<Rightarrow> 'a option" where
  "js_get xs i = (if i < length xs then xs ! i else None)"

definition js_set :: "'a option list \<Rightarrow> nat \<Rightarrow> 'a \<Rightarrow> 'a option list" where
  "js_set xs i v =
     (if i < length xs then xs[i := Some v]
      else xs @ replicate (i - length xs) None @ [Some v])"

text \<open>The object spread \<^verbatim>\<open>{ ...x }\<close> of a subtitle or of \<^verbatim>\<open>undefined\<close>.\<close>

definition spread :: "Subtitle option \<Rightarrow> Subtitle" where
  "spread x =
     (case x of
        None \<Rightarrow> \<lparr>startTime = None, endTime = None, sub_text = None\<rparr>
      | Some sub \<Rightarrow> sub)"

text \<open>The parameter type \<^verbatim>\<open>'startTime' | 'endTime'\<close>.\<close>

datatype TimeField = StartTimeField | EndTimeField

text \<open>
  \<^verbatim>\<open>
  const updateSubtitleText = (index, newText) => {
    if (!sceneInfo) return;
    const newSubtitles = [...(sceneInfo.subtitles || [])];
    newSubtitles[index] = { ...newSubtitles[index], text: newText };
    setSceneInfo({ ...sceneInfo, subtitles: newSubtitles });
  };
  \<close>
\<close>

definition updateSubtitleText :: "nat \<Rightarrow> string \<Rightarrow> AppModel \<Rightarrow> AppModel" where
  "updateSubtitleText index newText s =
     (case sceneInfo s of
        None \<Rightarrow> s
      | Some scene \<Rightarrow>
          (let newSubtitles = (case subtitles scene of None \<Rightarrow> [] | Some subs \<Rightarrow> subs);
               entry = (spread (js_get newSubtitles index))\<lparr>sub_text := Some newText\<rparr>
           in s\<lparr>sceneInfo := Some (scene\<lparr>subtitles := Some (js_set newSubtitles index entry)\<rparr>)\<rparr>))"

text \<open>
  \<^verbatim>\<open>
  const updateSubtitleTime = (index, field, value) => {
    if (!sceneInfo) return;
    const newSubtitles = [...(sceneInfo.subtitles || [])];
    const val = parseFloat(value);
    newSubtitles[index] = { ...newSubtitles[index], [field]: isNaN(val) ? 0 : val };
    setSceneInfo({ ...sceneInfo, subtitles: newSubtitles });
  };
  \<close>
  \<^verbatim>\<open>parseFloat\<close> is a built-in of the language, taken as the parameter \<open>parseFloat\<close>:
  it maps every string to a number, \<open>NaN\<close> when no prefix of the string is a decimal
  literal. No statement of the body can throw, so the model has no error result.
\<close>

definition updateSubtitleTime ::
  "(string \<Rightarrow> js_number) \<Rightarrow> nat \<Rightarrow> TimeField \<Rightarrow> string \<Rightarrow> AppModel \<Rightarrow> AppModel" where
  "updateSubtitleTime parseFloat index field value s =
     (case sceneInfo s of
        None \<Rightarrow> s
      | Some scene \<Rightarrow>
          (let newSubtitles = (case subtitles scene of None \<Rightarrow> [] | Some subs \<Rightarrow> subs);
               val = parseFloat value;
               v = (if isNaN val then Finite 0 else val);
               old = spread (js_get newSubtitles index);
               entry = (case field of
                          StartTimeField \<Rightarrow> old\<lparr>startTime := Some v\<rparr>
                        | EndTimeField \<Rightarrow> old\<lparr>endTime := Some v\<rparr>)
           in s\<lparr>sceneInfo := Some (scene\<lparr>subtitles := Some (js_set newSubtitles index entry)\<rparr>)\<rparr>))"

text \<open>Reading the field back.\<close>

definition time_field :: "TimeField \<Rightarrow> Subtitle \<Rightarrow> js_number option" where
  "time_field field sub =
     (case field of StartTimeField \<Rightarrow> startTime sub | EndTimeField \<Rightarrow> endTime sub)"

section \<open>The generation client (services/geminiService.ts)\<close>

subsection \<open>The response schema of analyzeScript\<close>

text \<open>
  The schema objects handed to the model service: \<^verbatim>\<open>type\<close>, \<^verbatim>\<open>properties\<close> (in
  insertion order), \<^verbatim>\<open>items\<close> and \<^verbatim>\<open>required\<close>. A schema without \<^verbatim>\<open>properties\<close>
  or \<^verbatim>\<open>required\<close> has the empty list there.
\<close>

datatype SchemaType = STRING | NUMBER | ARRAY | OBJECT

datatype Schema =
  Schema (schema_type: SchemaType) (properties: "(string \<times> Schema) list")
         (items: "Schema option") (required: "string list")

text \<open>
  \<^verbatim>\<open>
  const responseSchema: any = {
    type: Type.OBJECT,
    properties: {
      title: { type: Type.STRING }, description: { type: Type.STRING },
      visualPrompt: { type: Type.STRING }, genre: { type: Type.STRING },
      mood: { type: Type.STRING },
      characters: { type: Type.ARRAY, items: { type: Type.STRING } }
    },
    required: ["title", "description", "visualPrompt", "genre", "mood", "characters"]
  };
  if (config.includeSubtitles) {
    responseSchema.properties.subtitles = {
      type: Type.ARRAY,
      items: {
        type: Type.OBJECT,
        properties: { startTime: { type: Type.NUMBER }, endTime: { type: Type.NUMBER },
                      text: { type: Type.STRING } },
        required: ["startTime", "endTime", "text"]
      }
    };
    responseSchema.required.push("subtitles");
  }
  \<close>
\<close>

definition string_schema :: Schema where
  "string_schema = Schema STRING [] None []"

definition number_schema :: Schema where
  "number_schema = Schema NUMBER [] None []"

definition subtitles_schema :: Schema where
  "subtitles_schema =
     Schema ARRAY []
       (Some (Schema OBJECT
                [(''startTime'', number_schema), (''endTime'', number_schema),
                 (''text'', string_schema)]
                None
                [''startTime'', ''endTime'', ''text'']))
       []"

definition responseSchema :: "GenerationConfig \<Rightarrow> Schema" where
  "responseSchema cfg =
     (let props = [(''title'', string_schema), (''description'', string_schema),
                   (''visualPrompt'', string_schema), (''genre'', string_schema),
                   (''mood'', string_schema),
                   (''characters'', Schema ARRAY [] (Some string_schema) [])];
          req = [''title'', ''description'', ''visualPrompt'', ''genre'', ''mood'',
                 ''characters'']
      in if includeSubtitles cfg
         then Schema OBJECT (props @ [(''subtitles'', subtitles_schema)]) None
                (req @ [''subtitles''])
         else Schema OBJECT props None req)"

subsection \<open>generateVideo\<close>

text \<open>
  What the code reads of a video operation: \<^verbatim>\<open>operation.done\<close> and
  \<^verbatim>\<open>operation.response?.generatedVideos?.[0]?.video?.uri\<close>.
\<close>

record VideosOperation =
  is_done :: bool
  uri :: "string option"

definition progressMessages :: "string list" where
  "progressMessages =
     [''Drafting storyboards...'',
      ''Setting up virtual lighting...'',
      ''Capturing initial frames...'',
      ''Refining textures...'',
      ''Applying cinematic color grade...'',
      ''Finalizing render...'']"

text \<open>
  \<^verbatim>\<open>
  let msgIndex = 0;
  while (!operation.done) {
    onProgress(progressMessages[msgIndex % progressMessages.length]);
    msgIndex++;
    await new Promise(resolve => setTimeout(resolve, 8000));
    operation = await ai.operations.getVideosOperation({ operation: operation });
  }
  \<close>
  The job is the parameter \<open>getVideosOperation\<close>: its value at \<open>k\<close> is the answer to
  call number \<open>k\<close> (from 0) of \<^verbatim>\<open>ai.operations.getVideosOperation\<close>, an operation
  or a rejection. \<open>emitted\<close> collects the messages passed to \<^verbatim>\<open>onProgress\<close>, in
  order. The loop has no bound: on a job that is never done it does not return, and
  the value is \<open>None\<close>. The wait of 8 seconds is not part of the model.
\<close>

partial_function (option) poll_loop ::
  "(nat \<Rightarrow> js_error + VideosOperation) \<Rightarrow> nat \<Rightarrow> VideosOperation \<Rightarrow> nat \<Rightarrow> string list \<Rightarrow>
   (string list \<times> (js_error + VideosOperation)) option" where
  "poll_loop getVideosOperation k operation msgIndex emitted =
     (if \<not> is_done operation
      then (let emitted' = emitted @ [progressMessages ! (msgIndex mod length progressMessages)]
            in case getVideosOperation k of
                 Inl e \<Rightarrow> Some (emitted', Inl e)
               | Inr operation' \<Rightarrow>
                   poll_loop getVideosOperation (k + 1) operation' (msgIndex + 1) emitted')
      else Some (emitted, Inr operation))"

declare poll_loop.simps [code]

text \<open>
  \<^verbatim>\<open>
  export const generateVideo = async (prompt, onProgress) => {
    onProgress("Initializing cinematic engine...");
    let operation = await ai.models.generateVideos({ ..., prompt: prompt, ... });
    ... the loop ...
    const downloadLink = operation.response?.generatedVideos?.[0]?.video?.uri;
    if (!downloadLink) throw new Error("Video generation failed");
    return `${downloadLink}&key=${process.env.API_KEY}`;
  };
  \<close>
  \<open>apiKey\<close> is the text that \<^verbatim>\<open>process.env.API_KEY\<close> has in the template string,
  \<open>generateVideos\<close> the answer of \<^verbatim>\<open>ai.models.generateVideos\<close> to a prompt.
\<close>

definition generateVideo ::
  "string \<Rightarrow> (string \<Rightarrow> js_error + VideosOperation) \<Rightarrow> (nat \<Rightarrow> js_error + VideosOperation) \<Rightarrow>
   string \<Rightarrow> (string list \<times> (js_error + string)) option" where
  "generateVideo apiKey generateVideos getVideosOperation prompt =
     (let emitted = [''Initializing cinematic engine...'']
      in case generateVideos prompt of
           Inl e \<Rightarrow> Some (emitted, Inl e)
         | Inr operation \<Rightarrow>
             (case poll_loop getVideosOperation 0 operation 0 emitted of
                None \<Rightarrow> None
              | Some (emitted', Inl e) \<Rightarrow> Some (emitted', Inl e)
              | Some (emitted', Inr operation') \<Rightarrow>
                  (case uri operation' of
                     None \<Rightarrow> Some (emitted', Inl (JsError (Some ''Video generation failed'')))
                   | Some downloadLink \<Rightarrow>
                       if \<not> truthy (Some downloadLink)
                       then Some (emitted', Inl (JsError (Some ''Video generation failed'')))
                       else Some (emitted', Inr (downloadLink @ ''&key='' @ apiKey)))))"

section \<open>Observations and example inputs\<close>

text \<open>
  The time stored in a field of the subtitle at an index, read through the scene:
  \<^verbatim>\<open>sceneInfo?.subtitles?.[index]?.[field]\<close>.
\<close>

definition stored_time :: "AppModel \<Rightarrow> nat \<Rightarrow> TimeField \<Rightarrow> js_number option" where
  "stored_time s index field =
     (case sceneInfo s of
        None \<Rightarrow> None
      | Some scene \<Rightarrow>
          (case subtitles scene of
             None \<Rightarrow> None
           | Some subs \<Rightarrow>
               (case js_get subs index of
                  None \<Rightarrow> None
                | Some sub \<Rightarrow> time_field field sub)))"

text \<open>States of the application used as concrete inputs.\<close>

definition example_upload :: AppModel where
  "example_upload = initialApp\<lparr>state := UPLOAD\<rparr>"

definition example_configure :: AppModel where
  "example_configure = initialApp\<lparr>state := CONFIGURE, pdfBase64 := Some ''JVBERi0xLjQ=''\<rparr>"

definition example_two_selected :: AppModel where
  "example_two_selected =
     example_configure\<lparr>config :=
       (config example_configure)\<lparr>archetypes := [ReluctantHero, WiseMentor]\<rparr>\<rparr>"

definition example_scene :: MovieScene where
  "example_scene =
     \<lparr> title = ''Last Orbit'', description = ''A pilot decides.'',
       visualPrompt = ''Cinematic Push-In on a cockpit'', scene_genre = ''Sci-fi'',
       scene_mood = ''Epic'', characters = [''Reluctant Hero''],
       subtitles = Some [Some \<lparr>startTime = Some (Finite 0), endTime = Some (Finite 2),
                                sub_text = Some ''We go now.''\<rparr>],
       storyboardImage = Some ''data:image/png;base64,iVBORw0='' \<rparr>"

definition example_storyboard :: AppModel where
  "example_storyboard =
     example_two_selected\<lparr>state := STORYBOARD, sceneInfo := Some example_scene\<rparr>"

text \<open>Files offered to the upload handler.\<close>

definition pdf_file :: File where
  "pdf_file = \<lparr>file_type = ''application/pdf''\<rparr>"

definition text_file :: File where
  "text_file = \<lparr>file_type = ''text/plain''\<rparr>"

text \<open>Answers of the services.\<close>

definition expired_analysis :: "string \<Rightarrow> GenerationConfig \<Rightarrow> js_error + MovieScene" where
  "expired_analysis p cfg = Inl (JsError (Some ''404: Requested entity was not found.''))"

definition no_storyboard :: "string \<Rightarrow> js_error + string" where
  "no_storyboard prompt = Inl (JsError (Some ''Failed to generate storyboard image''))"

definition failing_video :: "string \<Rightarrow> (string list \<times> (js_error + string)) option" where
  "failing_video prompt =
     Some ([''Initializing cinematic engine...''], Inl (JsError (Some ''quota exceeded'')))"

text \<open>
  A video job whose handle is not done when \<^verbatim>\<open>generateVideos\<close> returns it, and two
  scripts of answers to \<^verbatim>\<open>getVideosOperation\<close>: done from the third call on, and done
  from the fourth call on.
\<close>

definition pending_operation :: VideosOperation where
  "pending_operation = \<lparr>is_done = False, uri = None\<rparr>"

definition finished_operation :: VideosOperation where
  "finished_operation = \<lparr>is_done = True, uri = Some ''https://video.example/v1?alt=media''\<rparr>"

definition example_start :: "string \<Rightarrow> js_error + VideosOperation" where
  "example_start prompt = Inr pending_operation"

definition example_polls :: "nat \<Rightarrow> js_error + VideosOperation" where
  "example_polls k = (if k < 2 then Inr pending_operation else Inr finished_operation)"

definition example_polls_late :: "nat \<Rightarrow> js_error + VideosOperation" where
  "example_polls_late k = (if k < 3 then Inr pending_operation else Inr finished_operation)"

text \<open>The values of \<^verbatim>\<open>parseFloat\<close> on the inputs used below.\<close>

definition example_parseFloat :: "string \<Rightarrow> js_number" where
  "example_parseFloat v = (if v = ''1.5'' then Finite (3 / 2) else NaN)"

section \<open>Properties of the production state machine\<close>

subsection \<open>The archetype precondition of the analysis\<close>

text \<open>
  Claim C1. For every configuration whose archetype selection is empty, whatever its
  genre, mood, camera and subtitle flag, the transition from CONFIGURE to ANALYZING does
  not fire: the button that starts the analysis is disabled, and a click on it leaves
  the whole state, the phase CONFIGURE included, as it was, both at the first
  suspension of the handler and at its end.
\<close>

theorem empty_archetypes_block_analysis:
  assumes "archetypes (config s) = []" and "state s = CONFIGURE"
  shows "initializeStoryboard_disabled s \<and>
         click_initializeStoryboard_sync s = s \<and>
         click_initializeStoryboard an sb s = s \<and>
         state (click_initializeStoryboard_sync s) = CONFIGURE \<and>
         state (click_initializeStoryboard an sb s) = CONFIGURE"
  using assms
  by (simp add: initializeStoryboard_disabled_def click_initializeStoryboard_sync_def
      click_initializeStoryboard_def)

text \<open>The theorem at a state in phase CONFIGURE with a payload and no archetype.\<close>

theorem empty_archetypes_block_analysis_witness:
  "archetypes (config example_configure) = [] \<and> state example_configure = CONFIGURE \<and>
   initializeStoryboard_disabled example_configure \<and>
   click_initializeStoryboard_sync example_configure = example_configure \<and>
   click_initializeStoryboard expired_analysis no_storyboard example_configure =
     example_configure"
proof -
  have a: "archetypes (config example_configure) = []"
    by (simp add: example_configure_def initialApp_def)
  have b: "state example_configure = CONFIGURE"
    by (simp add: example_configure_def)
  show ?thesis
    using a b empty_archetypes_block_analysis[OF a b, of expired_analysis no_storyboard]
    by simp
qed

text \<open>
  The guard is what blocks the transition: with an archetype selected and a payload
  stored, the same click enters ANALYZING.
\<close>

lemma nonempty_archetypes_start_analysis:
  assumes "archetypes (config s) \<noteq> []" and "state s = CONFIGURE" and "truthy (pdfBase64 s)"
  shows "state (click_initializeStoryboard_sync s) = ANALYZING"
  using assms
  by (simp add: initializeStoryboard_disabled_def click_initializeStoryboard_sync_def
      startAnalysis_sync_def startAnalysis_begin_def)

subsection \<open>Failures of the analysis and of the render\<close>

text \<open>
  Claim C4. If the analysis call is started (a payload is stored) and rejects with an
  error whose message contains the text "Requested entity was not found", then the
  phase becomes KEY_SELECTION, the error is the session-expired text, and the scene is
  what it was before the call: a scene that was null remains null.
\<close>

theorem analysis_credential_expiry:
  assumes "pdfBase64 s = Some p" and "p \<noteq> []"
    and "an p (config s) = Inl apiErr"
    and "message apiErr = Some m"
    and "str_includes m ''Requested entity was not found''"
  shows "state (startAnalysis an sb s) = KEY_SELECTION \<and>
         error (startAnalysis an sb s) =
           Some ''Your API key session expired. Please re-select your project.'' \<and>
         sceneInfo (startAnalysis an sb s) = sceneInfo s"
  using assms
  by (simp add: startAnalysis_def startAnalysis_try_def startAnalysis_catch_def
      startAnalysis_begin_def)

text \<open>
  The theorem at a state in phase CONFIGURE with one archetype selected and no scene,
  against a service that answers "404: Requested entity was not found.".
\<close>

theorem analysis_credential_expiry_witness:
  "state (toggleArchetype WiseMentor example_configure) = CONFIGURE \<and>
   state (startAnalysis expired_analysis no_storyboard
            (toggleArchetype WiseMentor example_configure)) = KEY_SELECTION \<and>
   error (startAnalysis expired_analysis no_storyboard
            (toggleArchetype WiseMentor example_configure)) =
     Some ''Your API key session expired. Please re-select your project.'' \<and>
   sceneInfo (startAnalysis expired_analysis no_storyboard
                (toggleArchetype WiseMentor example_configure)) = None"
proof -
  let ?s = "toggleArchetype WiseMentor example_configure"
  have a: "pdfBase64 ?s = Some ''JVBERi0xLjQ=''"
    by (simp add: example_configure_def toggleArchetype_def)
  have b: "''JVBERi0xLjQ='' \<noteq> []"
    by simp
  have c: "expired_analysis ''JVBERi0xLjQ='' (config ?s) =
           Inl (JsError (Some ''404: Requested entity was not found.''))"
    by (simp add: expired_analysis_def)
  have d: "message (JsError (Some ''404: Requested entity was not found.'')) =
           Some ''404: Requested entity was not found.''"
    by simp
  have e: "str_includes ''404: Requested entity was not found.''
             ''Requested entity was not found''"
    by code_simp
  have f: "sceneInfo ?s = None" "state ?s = CONFIGURE"
    by (simp_all add: example_configure_def toggleArchetype_def initialApp_def)
  show ?thesis
    using analysis_credential_expiry[where s = ?s and an = expired_analysis
        and sb = no_storyboard, OF a b c d e] f
    by simp
qed

text \<open>Every call of \<^verbatim>\<open>onProgress\<close> overwrites the loading message and nothing else.\<close>

lemma foldl_loadingMsg:
  "foldl (\<lambda>st msg. st\<lparr>loadingMsg := msg\<rparr>) s msgs = s\<lparr>loadingMsg := last (loadingMsg s # msgs)\<rparr>"
  by (induction msgs arbitrary: s) simp_all

lemma or_else_nonempty: "d \<noteq> [] \<Longrightarrow> or_else m d \<noteq> []"
  by (cases m) simp_all

text \<open>
  Claim C5. If the video render call, started with a scene present as it is in phase
  STORYBOARD, rejects with any error, then the handler ends in phase STORYBOARD (not
  CONFIGURE), the error is set to a non-empty message (the message of the error, or
  "Video generation failed." when it has none), and the scene, with its storyboard
  image and its subtitles, is the one that was there before.
\<close>

theorem video_failure_back_to_storyboard:
  assumes "sceneInfo s = Some scene"
    and "gv (visualPrompt scene) = Some (msgs, Inl apiErr)"
  shows "map_option state (startVideoGeneration gv s) = Some STORYBOARD \<and>
         map_option error (startVideoGeneration gv s) =
           Some (Some (or_else (message apiErr) ''Video generation failed.'')) \<and>
         or_else (message apiErr) ''Video generation failed.'' \<noteq> [] \<and>
         map_option sceneInfo (startVideoGeneration gv s) = Some (Some scene)"
  using assms
  by (simp add: startVideoGeneration_def foldl_loadingMsg or_else_nonempty)

text \<open>
  The theorem at a state in phase STORYBOARD whose scene has a storyboard image and a
  subtitle, against a render that rejects with "quota exceeded".
\<close>

theorem video_failure_back_to_storyboard_witness:
  "state example_storyboard = STORYBOARD \<and>
   map_option state (startVideoGeneration failing_video example_storyboard) =
     Some STORYBOARD \<and>
   map_option error (startVideoGeneration failing_video example_storyboard) =
     Some (Some ''quota exceeded'') \<and>
   map_option sceneInfo (startVideoGeneration failing_video example_storyboard) =
     Some (Some example_scene) \<and>
   storyboardImage example_scene = Some ''data:image/png;base64,iVBORw0=''"
proof -
  have a: "sceneInfo example_storyboard = Some example_scene"
    by (simp add: example_storyboard_def)
  have b: "failing_video (visualPrompt example_scene) =
           Some ([''Initializing cinematic engine...''], Inl (JsError (Some ''quota exceeded'')))"
    by (simp add: failing_video_def)
  show ?thesis
    using video_failure_back_to_storyboard[where s = example_storyboard
        and gv = failing_video, OF a b]
    by (simp add: example_storyboard_def example_scene_def)
qed

subsection \<open>Upload\<close>

text \<open>
  Claim C6. For every file offered to the upload handler in phase UPLOAD, the handler
  ends in phase CONFIGURE if and only if the MIME type of the file is exactly
  application/pdf and the reader loads it; the payload stored then is the part of the
  data URL after its first comma, and the error is cleared. For any other MIME type
  the phase stays UPLOAD and the error is set to the input-error message, nothing else
  changing.
\<close>

theorem upload_accepts_pdf_only:
  assumes "state s = UPLOAD"
  shows "(state (handleFileUpload (Some f) rd s) = CONFIGURE) =
           (file_type f = ''application/pdf'' \<and> (\<exists>result. rd = OnLoad (Some result))) \<and>
         (\<forall>result. file_type f = ''application/pdf'' \<and> rd = OnLoad (Some result) \<longrightarrow>
            pdfBase64 (handleFileUpload (Some f) rd s) = split_comma_1 result \<and>
            error (handleFileUpload (Some f) rd s) = None) \<and>
         (file_type f \<noteq> ''application/pdf'' \<longrightarrow>
            state (handleFileUpload (Some f) rd s) = UPLOAD \<and>
            error (handleFileUpload (Some f) rd s) = Some ''Please upload a valid PDF script.'' \<and>
            handleFileUpload (Some f) rd s =
              s\<lparr>error := Some ''Please upload a valid PDF script.''\<rparr>)"
  using assms
  by (auto simp: handleFileUpload_def Let_def split: ReadOutcome.splits option.splits)

text \<open>The theorem at a PDF file that loads and at a plain-text file.\<close>

theorem upload_accepts_pdf_only_witness:
  "state example_upload = UPLOAD \<and>
   state (handleFileUpload (Some pdf_file)
            (OnLoad (Some ''data:application/pdf;base64,JVBERi0xLjQ='')) example_upload) =
     CONFIGURE \<and>
   pdfBase64 (handleFileUpload (Some pdf_file)
            (OnLoad (Some ''data:application/pdf;base64,JVBERi0xLjQ='')) example_upload) =
     Some ''JVBERi0xLjQ='' \<and>
   state (handleFileUpload (Some text_file)
            (OnLoad (Some ''data:text/plain;base64,aGVsbG8='')) example_upload) = UPLOAD \<and>
   error (handleFileUpload (Some text_file)
            (OnLoad (Some ''data:text/plain;base64,aGVsbG8='')) example_upload) =
     Some ''Please upload a valid PDF script.''"
proof -
  have a: "state example_upload = UPLOAD"
    by (simp add: example_upload_def)
  show ?thesis
    using a
      upload_accepts_pdf_only[OF a, of pdf_file
        "OnLoad (Some ''data:application/pdf;base64,JVBERi0xLjQ='')"]
      upload_accepts_pdf_only[OF a, of text_file
        "OnLoad (Some ''data:text/plain;base64,aGVsbG8='')"]
    by (simp add: pdf_file_def text_file_def split_comma_1_def)
qed

section \<open>Properties of the session and configuration store\<close>

subsection \<open>toggleArchetype\<close>

lemma filter_absent: "x \<notin> set xs \<Longrightarrow> filter (\<lambda>a. a \<noteq> x) xs = xs"
  by (induction xs) auto

text \<open>
  Claim C7, as amended. For every archetype \<open>x\<close> and every current archetype list,
  calling \<open>toggleArchetype x\<close> twice in succession gives a list with the same members
  as the original. When \<open>x\<close> was not selected the state is exactly the original one,
  order included. When \<open>x\<close> was selected the list is the original one with \<open>x\<close> taken
  out and put back at the end, the other members keeping their order.
\<close>

theorem toggleArchetype_twice:
  "set (archetypes (config (toggleArchetype x (toggleArchetype x s)))) =
     set (archetypes (config s)) \<and>
   (x \<notin> set (archetypes (config s)) \<longrightarrow> toggleArchetype x (toggleArchetype x s) = s) \<and>
   (x \<in> set (archetypes (config s)) \<longrightarrow>
      archetypes (config (toggleArchetype x (toggleArchetype x s))) =
        filter (\<lambda>a. a \<noteq> x) (archetypes (config s)) @ [x])"
  by (auto simp: toggleArchetype_def filter_absent)

text \<open>
  The theorem at the selection Reluctant Hero, Wise Mentor: once for Comic Relief, which
  is not selected, and once for Reluctant Hero, which is.
\<close>

theorem toggleArchetype_twice_witness:
  "ComicRelief \<notin> set (archetypes (config example_two_selected)) \<and>
   toggleArchetype ComicRelief (toggleArchetype ComicRelief example_two_selected) =
     example_two_selected \<and>
   ReluctantHero \<in> set (archetypes (config example_two_selected)) \<and>
   archetypes (config (toggleArchetype ReluctantHero
                         (toggleArchetype ReluctantHero example_two_selected))) =
     [WiseMentor, ReluctantHero]"
proof -
  have a: "archetypes (config example_two_selected) = [ReluctantHero, WiseMentor]"
    by (simp add: example_two_selected_def)
  show ?thesis
    using toggleArchetype_twice[of ComicRelief example_two_selected]
      toggleArchetype_twice[of ReluctantHero example_two_selected]
    by (simp add: a)
qed

text \<open>
  The order is not restored in general: from the selection Reluctant Hero, Wise Mentor,
  toggling Reluctant Hero twice gives Wise Mentor, Reluctant Hero.
\<close>

theorem toggleArchetype_twice_order_counterexample:
  "archetypes (config example_two_selected) = [ReluctantHero, WiseMentor] \<and>
   archetypes (config (toggleArchetype ReluctantHero
                         (toggleArchetype ReluctantHero example_two_selected))) =
     [WiseMentor, ReluctantHero] \<and>
   archetypes (config (toggleArchetype ReluctantHero
                         (toggleArchetype ReluctantHero example_two_selected))) \<noteq>
     archetypes (config example_two_selected)"
  by (simp add: toggleArchetype_def example_two_selected_def)

subsection \<open>updateSubtitleTime\<close>

lemma js_get_js_set: "js_get (js_set xs i v) i = Some v"
  by (simp add: js_get_def js_set_def nth_append)

lemma isNaN_iff: "isNaN v = (v = NaN)"
  by (cases v) simp_all

text \<open>Without a scene the handler returns at once.\<close>

lemma updateSubtitleTime_no_scene:
  "sceneInfo s = None \<Longrightarrow> updateSubtitleTime parseFloat index field value s = s"
  by (simp add: updateSubtitleTime_def)

text \<open>
  Claim C8. For every index, in or beyond the subtitle array, each of the two fields and
  every raw input string, \<open>updateSubtitleTime\<close> on a state with a scene returns a
  state (the model has no error result, since no statement of the handler can throw)
  in which the field of the subtitle at that index holds 0 when the input does not
  parse to a number and the parsed number when it does; it never holds NaN.
\<close>

theorem subtitle_time_never_nan:
  assumes "sceneInfo s = Some scene"
  shows "stored_time (updateSubtitleTime parseFloat index field value s) index field =
           Some (if parseFloat value = NaN then Finite 0 else parseFloat value) \<and>
         stored_time (updateSubtitleTime parseFloat index field value s) index field \<noteq>
           Some NaN"
  using assms
  by (cases field)
     (simp_all add: updateSubtitleTime_def stored_time_def time_field_def Let_def
        js_get_js_set isNaN_iff)

text \<open>
  The theorem at a scene with one subtitle: the input "abc" at index 0, the input "1.5"
  at index 0, and the input "abc" at index 4, beyond the array.
\<close>

theorem subtitle_time_never_nan_witness:
  "stored_time (updateSubtitleTime example_parseFloat 0 StartTimeField ''abc''
                  example_storyboard) 0 StartTimeField = Some (Finite 0) \<and>
   stored_time (updateSubtitleTime example_parseFloat 0 EndTimeField ''1.5''
                  example_storyboard) 0 EndTimeField = Some (Finite (3 / 2)) \<and>
   stored_time (updateSubtitleTime example_parseFloat 4 EndTimeField ''abc''
                  example_storyboard) 4 EndTimeField = Some (Finite 0)"
proof -
  have a: "sceneInfo example_storyboard = Some example_scene"
    by (simp add: example_storyboard_def)
  show ?thesis
    using subtitle_time_never_nan[OF a, of example_parseFloat 0 StartTimeField "''abc''"]
      subtitle_time_never_nan[OF a, of example_parseFloat 0 EndTimeField "''1.5''"]
      subtitle_time_never_nan[OF a, of example_parseFloat 4 EndTimeField "''abc''"]
    by (simp add: example_parseFloat_def)
qed

subsection \<open>reset\<close>

text \<open>
  Claim C9. Calling \<open>reset\<close> from any phase, RESULT among them, clears the video
  reference, the scene, the uploaded PDF payload and the error, clears the video-loaded
  flag, and moves the phase to UPLOAD.
\<close>

theorem reset_clears_project:
  "state (reset s) = UPLOAD \<and> videoUrl (reset s) = None \<and> sceneInfo (reset s) = None \<and>
   pdfBase64 (reset s) = None \<and> error (reset s) = None \<and> videoLoaded (reset s) = False"
  by (simp add: reset_def)

text \<open>
  Claim C10. \<open>reset\<close> leaves the configuration unchanged: genre, mood, camera,
  includeSubtitles and the archetype selection keep the values they had before.
\<close>

theorem reset_keeps_config:
  "config (reset s) = config s \<and>
   genre (config (reset s)) = genre (config s) \<and>
   mood (config (reset s)) = mood (config s) \<and>
   camera (config (reset s)) = camera (config s) \<and>
   includeSubtitles (config (reset s)) = includeSubtitles (config s) \<and>
   archetypes (config (reset s)) = archetypes (config s)"
  by (simp add: reset_def)

section \<open>Properties of the generation client\<close>

subsection \<open>The response schema\<close>

text \<open>
  Claim C3. For every configuration, the response schema built by \<open>analyzeScript\<close>
  lists "subtitles" in its required set exactly when includeSubtitles is true, and has
  a property named "subtitles" exactly when includeSubtitles is true: with the flag
  set the field is present and required, without it the field is in neither place.
\<close>

theorem responseSchema_subtitles:
  "(''subtitles'' \<in> set (required (responseSchema cfg))) = includeSubtitles cfg \<and>
   (''subtitles'' \<in> set (map fst (properties (responseSchema cfg)))) = includeSubtitles cfg"
  by (simp add: responseSchema_def Let_def)

text \<open>
  The two schemas written out, at the initial configuration (subtitles on) and at the
  same configuration with the flag switched off.
\<close>

lemma responseSchema_examples:
  "required (responseSchema (config initialApp)) =
     [''title'', ''description'', ''visualPrompt'', ''genre'', ''mood'', ''characters'',
      ''subtitles''] \<and>
   map fst (properties (responseSchema (config initialApp))) =
     [''title'', ''description'', ''visualPrompt'', ''genre'', ''mood'', ''characters'',
      ''subtitles''] \<and>
   required (responseSchema ((config initialApp)\<lparr>includeSubtitles := False\<rparr>)) =
     [''title'', ''description'', ''visualPrompt'', ''genre'', ''mood'', ''characters''] \<and>
   map fst (properties (responseSchema ((config initialApp)\<lparr>includeSubtitles := False\<rparr>))) =
     [''title'', ''description'', ''visualPrompt'', ''genre'', ''mood'', ''characters'']"
  by (simp add: responseSchema_def initialApp_def)

subsection \<open>The polling loop\<close>

lemma map_upt_shift: "map f [0..<Suc n] = f 0 # map (\<lambda>i. f (Suc i)) [0..<n]"
  by (induction n) simp_all

lemma poll_loop_done:
  "is_done operation \<Longrightarrow> poll_loop g k operation m emitted = Some (emitted, Inr operation)"
  by (subst poll_loop.simps) simp

lemma poll_loop_step:
  "\<not> is_done operation \<Longrightarrow> g k = Inr operation' \<Longrightarrow>
   poll_loop g k operation m emitted =
   poll_loop g (Suc k) operation' (Suc m)
     (emitted @ [progressMessages ! (m mod length progressMessages)])"
  by (subst poll_loop.simps) (simp add: Let_def)

text \<open>
  The loop entered with an operation that is not done, on a job whose next \<open>n\<close>
  answers are not done and whose answer after those is done: it returns that answer,
  having emitted \<open>n + 1\<close> messages, message \<open>i\<close> being the entry of the list at
  \<open>msgIndex + i\<close> modulo the length of the list.
\<close>

lemma poll_loop_pending:
  assumes "\<not> is_done operation"
    and "\<forall>i<n. \<exists>op. g (k + i) = Inr op \<and> \<not> is_done op"
    and "g (k + n) = Inr opd" and "is_done opd"
  shows "poll_loop g k operation m emitted =
         Some (emitted @
                 map (\<lambda>i. progressMessages ! ((m + i) mod length progressMessages)) [0..<Suc n],
               Inr opd)"
  using assms
proof (induction n arbitrary: k operation m emitted)
  case 0
  then show ?case
    by (simp add: poll_loop_step[where operation'=opd] poll_loop_done)
next
  case (Suc n)
  from Suc.prems(2) obtain op1 where op1: "g k = Inr op1" "\<not> is_done op1"
    by force
  have rest: "\<forall>i<n. \<exists>op. g (Suc k + i) = Inr op \<and> \<not> is_done op"
    using Suc.prems(2) by (metis Suc_less_eq add_Suc_shift)
  have final: "g (Suc k + n) = Inr opd"
    using Suc.prems(3) by simp
  have "poll_loop g k operation m emitted =
        poll_loop g (Suc k) op1 (Suc m)
          (emitted @ [progressMessages ! (m mod length progressMessages)])"
    using Suc.prems(1) op1(1) by (rule poll_loop_step)
  also have "\<dots> =
        Some ((emitted @ [progressMessages ! (m mod length progressMessages)]) @
                map (\<lambda>i. progressMessages ! ((Suc m + i) mod length progressMessages))
                  [0..<Suc n],
              Inr opd)"
    using Suc.IH[OF op1(2) rest final Suc.prems(4)] .
  also have "\<dots> =
        Some (emitted @
                map (\<lambda>i. progressMessages ! ((m + i) mod length progressMessages))
                  [0..<Suc (Suc n)],
              Inr opd)"
    by (subst (2) map_upt_shift) simp
  finally show ?case .
qed

text \<open>
  The whole call on such a job, for any number \<open>n\<close> of answers that are not done: it
  returns, and the messages of the list wrap around once the list is exhausted.
\<close>

lemma generateVideo_pending:
  assumes "generateVideos prompt = Inr op0" and "\<not> is_done op0"
    and "\<forall>i<n. \<exists>op. getVideosOperation i = Inr op \<and> \<not> is_done op"
    and "getVideosOperation n = Inr opd" and "is_done opd"
  shows "generateVideo apiKey generateVideos getVideosOperation prompt =
         Some (''Initializing cinematic engine...'' #
                 map (\<lambda>i. progressMessages ! (i mod length progressMessages)) [0..<Suc n],
               if truthy (uri opd) then Inr (the (uri opd) @ ''&key='' @ apiKey)
               else Inl (JsError (Some ''Video generation failed'')))"
proof -
  have "poll_loop getVideosOperation 0 op0 0 [''Initializing cinematic engine...''] =
        Some ([''Initializing cinematic engine...''] @
                map (\<lambda>i. progressMessages ! ((0 + i) mod length progressMessages)) [0..<Suc n],
              Inr opd)"
    using assms(2-5) by (intro poll_loop_pending) simp_all
  then show ?thesis
    using assms(1) by (cases "uri opd") (simp_all add: generateVideo_def)
qed

lemma progressMessages_wrap:
  "progressMessages ! (6 mod length progressMessages) = ''Drafting storyboards...'' \<and>
   progressMessages ! (7 mod length progressMessages) = ''Setting up virtual lighting...''"
  by (simp add: progressMessages_def)

text \<open>
  Claim C2, as amended. The statuses of a job are the handle returned by
  \<open>generateVideos\<close> and then the answers of \<open>getVideosOperation\<close>. For a job whose
  first three statuses report done = false and whose fourth reports done = true,
  \<open>generateVideo\<close> returns; \<open>onProgress\<close> has received four messages: first the fixed
  text "Initializing cinematic engine...", which is not in the list, then exactly three
  messages of the list, at the indices 0, 1, 2 taken modulo the length of the list. The
  call resolves with the download link of the fourth status followed by "&key=" and
  the API key, or rejects with "Video generation failed" when the fourth status has
  no link.
\<close>

theorem generateVideo_polling:
  assumes "generateVideos prompt = Inr op0" and "\<not> is_done op0"
    and "getVideosOperation 0 = Inr op1" and "\<not> is_done op1"
    and "getVideosOperation 1 = Inr op2" and "\<not> is_done op2"
    and "getVideosOperation 2 = Inr op3" and "is_done op3"
  shows "generateVideo apiKey generateVideos getVideosOperation prompt =
         Some (''Initializing cinematic engine...'' #
                 map (\<lambda>i. progressMessages ! (i mod length progressMessages)) [0, 1, 2],
               if truthy (uri op3) then Inr (the (uri op3) @ ''&key='' @ apiKey)
               else Inl (JsError (Some ''Video generation failed'')))"
proof -
  have pending: "\<forall>i<2. \<exists>op. getVideosOperation i = Inr op \<and> \<not> is_done op"
    using assms(3-6) by (auto simp: less_Suc_eq numeral_2_eq_2)
  have upt: "[0..<Suc 2] = [0, 1, 2]"
    by (simp add: upt_rec)
  show ?thesis
    using generateVideo_pending[where generateVideos = generateVideos
        and getVideosOperation = getVideosOperation and apiKey = apiKey,
        OF assms(1,2) pending assms(7,8)]
    by (simp only: upt)
qed

text \<open>
  The theorem at the job that is done from the third answer of \<open>getVideosOperation\<close>
  on, with the messages and the result written out.
\<close>

theorem generateVideo_polling_witness:
  "generateVideo ''K'' example_start example_polls ''a cockpit'' =
     Some ([''Initializing cinematic engine...'', ''Drafting storyboards...'',
            ''Setting up virtual lighting...'', ''Capturing initial frames...''],
           Inr ''https://video.example/v1?alt=media&key=K'')"
  using generateVideo_polling[of example_start "''a cockpit''" pending_operation
      example_polls pending_operation pending_operation finished_operation "''K''"]
  by (simp add: example_start_def example_polls_def pending_operation_def
      finished_operation_def progressMessages_def)

text \<open>
  The messages passed to \<open>onProgress\<close> are not exactly three messages of the list.
  Counting the handle as the first status, the job with three statuses not done and the
  fourth done gets four messages, the first of them the initial text. Counting only the
  answers of \<open>getVideosOperation\<close>, the job with three answers not done and the fourth
  done gets five messages: the initial text and the entries 0 to 3 of the list.
\<close>

theorem generateVideo_three_messages_counterexample:
  "generateVideo ''K'' example_start example_polls ''a cockpit'' =
     Some ([''Initializing cinematic engine...'', ''Drafting storyboards...'',
            ''Setting up virtual lighting...'', ''Capturing initial frames...''],
           Inr ''https://video.example/v1?alt=media&key=K'') \<and>
   map_option fst (generateVideo ''K'' example_start example_polls ''a cockpit'') \<noteq>
     Some [''Drafting storyboards...'', ''Setting up virtual lighting...'',
           ''Capturing initial frames...''] \<and>
   generateVideo ''K'' example_start example_polls_late ''a cockpit'' =
     Some ([''Initializing cinematic engine...'', ''Drafting storyboards...'',
            ''Setting up virtual lighting...'', ''Capturing initial frames...'',
            ''Refining textures...''],
           Inr ''https://video.example/v1?alt=media&key=K'') \<and>
   map_option fst (generateVideo ''K'' example_start example_polls_late ''a cockpit'') \<noteq>
     Some [''Drafting storyboards...'', ''Setting up virtual lighting...'',
           ''Capturing initial frames...'']"
  by (simp add: generateVideo_def poll_loop.simps example_start_def example_polls_def
      example_polls_late_def pending_operation_def finished_operation_def
      progressMessages_def)

end
